theory Spec2Isabelle
  imports Complex_Main
begin

section \<open>Data model (types/index.ts)\<close>

text \<open>
  The string-literal unions of the source that the rules engine only ever compares
  against fixed literals are datatypes. \<open>CardioType\<close>, \<open>StrengthCategory\<close> and the two
  range-of-motion buckets stay strings: the engine compares cardio types with strings
  derived from exercise identifiers, and \<open>bucketToAngle\<close> has a default branch for a
  string outside the union.

  Record fields the engine never reads (identifiers, free texts, the goal's
  \<open>cardioBaseline\<close>, a log's activity flags) are left out.

  Dates are the source's ISO strings after \<open>new Date(s).getTime()\<close>: an integer number
  of milliseconds. The clock (\<open>new Date()\<close>) is the explicit parameter \<open>now\<close>. An optional
  field is an \<open>option\<close>; for \<open>surgeryDate\<close>, \<open>None\<close> stands for every falsy value
  (absent or the empty string).

  Numbers are JavaScript doubles in the source. Pain scores, angles, day counts and
  timestamps are integers there, so they are \<open>int\<close> here, and the quotients the engine
  forms (an average, a product with 0.6) are exact reals: on the integers that occur,
  the correctly rounded double operations followed by a comparison with an integer,
  \<open>Math.floor\<close> or \<open>Math.ceil\<close> agree with the exact ones.
\<close>

datatype SurgeryStatus = SurgeryNone | Planned | PostOp

datatype RecoveryStage = Acute | EarlyRehab | Strengthening | ReturnToSport

datatype ExternalRotationLimit = LimitNone | Mild | Moderate | Severe

datatype GoalType =
  HalfMarathon | TenK | FiveK | GeneralConditioning | Strength | WeightLoss | MaintainFitness

datatype TargetArea = Shoulder | Core | Legs | FullBody

type_synonym CardioType = string

type_synonym StrengthCategory = string

record Restrictions =
  inSling :: bool
  noRunning :: bool
  noOverhead :: bool
  maxAbductionAngle :: int
  maxFlexionAngle :: int
  externalRotationLimit :: ExternalRotationLimit

record FitnessGoal =
  goalType :: GoalType
  targetDate :: "int option"
  daysPerWeek :: int
  minutesPerDay :: int

record UserProfile =
  injuryDate :: int
  surgeryStatus :: SurgeryStatus
  surgeryDate :: "int option"
  restrictions :: Restrictions
  goal :: FitnessGoal
  createdAt :: int

record DailyLog =
  date :: int
  pain :: int
  instability :: int
  sleepImpact :: int
  flexionBucket :: string
  abductionBucket :: string
  slingWorn :: bool

record AllowedActivities =
  cardio :: "CardioType list"
  strength :: "StrengthCategory list"
  canDoOverhead :: bool
  canDoHeavyCarries :: bool
  canDoPullUps :: bool
  isDeloadWeek :: bool
  notes_list :: "string list"

section \<open>Helpers of the rules engine\<close>

definition bucketToAngle :: "string \<Rightarrow> int" where
  "bucketToAngle bucket =
     (if bucket = ''<60'' then 30
      else if bucket = ''60-90'' then 75
      else if bucket = ''90-120'' then 105
      else if bucket = ''120-150'' then 135
      else if bucket = ''150+'' then 165
      else 0)"

definition weeksSince :: "int \<Rightarrow> int \<Rightarrow> int" where
  "weeksSince now d = \<lfloor>real_of_int (now - d) / real_of_int (7 * 24 * 60 * 60 * 1000)\<rfloor>"

text \<open>\<open>xs.slice(-n)\<close>: the last \<open>n\<close> elements, all of them when there are fewer.\<close>

definition slice_last :: "nat \<Rightarrow> 'a list \<Rightarrow> 'a list" where
  "slice_last n xs = drop (length xs - n) xs"

text \<open>\<open>xs[xs.length - 1]\<close>, which is \<open>undefined\<close> on the empty array.\<close>

definition last_elem :: "'a list \<Rightarrow> 'a option" where
  "last_elem xs = (if xs = [] then None else Some (last xs))"

text \<open>\<open>xs.reduce((sum, l) => sum + l.pain, 0) / xs.length\<close>\<close>

definition averagePain :: "DailyLog list \<Rightarrow> real" where
  "averagePain xs = real_of_int (foldl (\<lambda>sum l. sum + pain l) 0 xs) / real (length xs)"

section \<open>Recovery stage\<close>

text \<open>Lines 51 to 55 of \<open>currentRecoveryStage\<close>: the weeks the cascade compares.\<close>

definition weeksRecovering :: "int \<Rightarrow> UserProfile \<Rightarrow> int" where
  "weeksRecovering now profile =
     (let weeksSinceInjury = weeksSince now (injuryDate profile);
          weeksSinceSurgery =
            (case surgeryDate profile of Some d \<Rightarrow> Some (weeksSince now d) | None \<Rightarrow> None)
      in case weeksSinceSurgery of Some w \<Rightarrow> w | None \<Rightarrow> weeksSinceInjury)"

definition recentLogs :: "DailyLog list \<Rightarrow> DailyLog list" where
  "recentLogs logs = slice_last 7 logs"

definition currentRecoveryStage :: "int \<Rightarrow> UserProfile \<Rightarrow> DailyLog list \<Rightarrow> RecoveryStage" where
  "currentRecoveryStage now profile logs =
     (let weeks = weeksRecovering now profile;
          recent = recentLogs logs;
          avgPain = (if length recent > 0 then averagePain recent else 5);
          latestLog = last_elem recent;
          latestFlexion =
            (case latestLog of Some l \<Rightarrow> bucketToAngle (flexionBucket l) | None \<Rightarrow> 30);
          latestAbduction =
            (case latestLog of Some l \<Rightarrow> bucketToAngle (abductionBucket l) | None \<Rightarrow> 30)
      in if weeks \<le> 2 \<or> inSling (restrictions profile) \<or> avgPain \<ge> 7 then Acute
         else if weeks \<le> 6 \<or> latestFlexion < 90 \<or> latestAbduction < 90 \<or> avgPain \<ge> 5
           then EarlyRehab
         else if weeks \<le> 12 \<or> latestFlexion < 150 \<or> latestAbduction < 150
           then Strengthening
         else ReturnToSport)"

section \<open>Allowed activities\<close>

text \<open>
  The source pushes onto three arrays in program order; here each push is an append, in
  the same order. \<open>!latestLog\<close> is true exactly for \<open>null\<close>.
\<close>

definition noLogOr :: "DailyLog option \<Rightarrow> (DailyLog \<Rightarrow> bool) \<Rightarrow> bool" where
  "noLogOr latestLog P = (case latestLog of None \<Rightarrow> True | Some l \<Rightarrow> P l)"

definition allowedActivities :: "UserProfile \<Rightarrow> DailyLog option \<Rightarrow> AllowedActivities" where
  "allowedActivities profile latestLog =
     (let r = restrictions profile;
          deload =
            (case latestLog of
               None \<Rightarrow> False
             | Some l \<Rightarrow> pain l \<ge> 7 \<or> instability l \<ge> 7 \<or> sleepImpact l \<ge> 8);
          notes1 =
            (if deload then [''Deload week: reduce intensity, focus on recovery''] else []);
          cardio1 = [''walk'', ''bike''];
          cardio2 = (if \<not> inSling r then cardio1 @ [''elliptical''] else cardio1);
          runGate = (\<not> noRunning r \<and> \<not> inSling r);
          runOk = noLogOr latestLog (\<lambda>l. pain l \<le> 5 \<and> instability l \<le> 5);
          cardio3 = (if runGate \<and> runOk then cardio2 @ [''run''] else cardio2);
          notes2 =
            (if runGate \<and> \<not> runOk
             then notes1 @ [''Running paused due to pain/instability levels'']
             else notes1);
          cardio4 = (if maxFlexionAngle r \<ge> 60 then cardio3 @ [''swim''] else cardio3);
          rowOk =
            (\<not> inSling r \<and> maxAbductionAngle r \<ge> 60 \<and> maxFlexionAngle r \<ge> 90 \<and>
             noLogOr latestLog (\<lambda>l. pain l \<le> 3));
          cardio5 = (if rowOk then cardio4 @ [''row''] else cardio4);
          notes3 =
            (if rowOk then notes2 @ [''Light rowing only - stop if shoulder discomfort'']
             else notes2);
          strength1 = [''legs''];
          strength2 =
            (if maxFlexionAngle r \<ge> 60 \<or> \<not> inSling r then strength1 @ [''core'']
             else strength1);
          overhead =
            (\<not> noOverhead r \<and> maxAbductionAngle r \<ge> 120 \<and> maxFlexionAngle r \<ge> 120 \<and>
             noLogOr latestLog (\<lambda>l. pain l \<le> 3));
          heavyCarries =
            (\<not> inSling r \<and> maxFlexionAngle r \<ge> 90 \<and> noLogOr latestLog (\<lambda>l. pain l \<le> 4));
          pullUps =
            (\<not> inSling r \<and> maxAbductionAngle r \<ge> 150 \<and> maxFlexionAngle r \<ge> 150 \<and>
             externalRotationLimit r = LimitNone \<and>
             noLogOr latestLog (\<lambda>l. pain l \<le> 2 \<and> instability l \<le> 2));
          pullOk =
            (\<not> inSling r \<and> maxAbductionAngle r \<ge> 90 \<and> noLogOr latestLog (\<lambda>l. pain l \<le> 3));
          strength3 = (if pullOk then strength2 @ [''upper-pull''] else strength2);
          notes4 =
            (if pullOk then notes3 @ [''Upper body pulling: keep light, avoid overhead'']
             else notes3);
          strength4 = (if overhead then strength3 @ [''upper-push''] else strength3);
          notes5 =
            (if overhead then notes4 @ [''Overhead pressing cleared - start light'']
             else notes4)
      in \<lparr> cardio = cardio5, strength = strength4, canDoOverhead = overhead,
           canDoHeavyCarries = heavyCarries, canDoPullUps = pullUps,
           isDeloadWeek = deload, notes_list = notes5 \<rparr>)"

section \<open>Exercise catalog and plan objects\<close>

text \<open>
  The exercise library (\<open>exercises.ts\<close>) is a static table read through three
  accessors; it is a parameter of the plan generators here, so every result below holds
  for every catalog. Of an exercise, the fields the engine reads are kept (the display
  texts \<open>name\<close>, \<open>instructions\<close> and \<open>videoUrl\<close> are not read).
\<close>

record Exercise =
  exid :: string
  targetArea :: TargetArea
  difficulty :: int
  requiresOverhead :: bool
  requiresShoulderLoading :: bool
  requiresExternalRotation :: bool
  minAbductionAngle :: int
  minFlexionAngle :: int
  sets :: "string option"
  reps :: "string option"
  duration :: "string option"

record Catalog =
  getRehabExercises :: "Exercise list"
  getCardioExercises :: "Exercise list"
  getStrengthExercises :: "Exercise list"

text \<open>The result of \<open>parseInt\<close>: a whole number or \<open>NaN\<close>.\<close>

datatype jsnum = NaN | Num int

record WorkoutExercise =
  exercise :: Exercise
  we_sets :: jsnum
  we_reps :: "jsnum option"
  we_duration :: "string option"

text \<open>
  Of a \<open>RehabWorkout\<close>, the identifier (built from the clock) and the total duration
  (a rounded floating-point estimate) are left out; no statement below reads them.
\<close>

record RehabWorkout =
  rw_name :: string
  rw_stage :: RecoveryStage
  rw_exercises :: "WorkoutExercise list"
  rw_notes :: "string option"

record FitnessWorkout =
  fw_id :: string
  fw_name :: string
  fw_type :: string
  fw_exercises :: "WorkoutExercise list"
  fw_totalDuration :: string
  cardioType :: "CardioType option"
  intensity :: string

record PlannedDay =
  day :: nat
  fitness :: FitnessWorkout

text \<open>Of a \<open>WeeklyPlan\<close>, the start date (today's date as text) is left out.\<close>

record WeeklyPlan =
  weekNumber :: int
  workouts :: "PlannedDay list"
  totalCardioMinutes :: int
  totalStrengthSessions :: int

section \<open>String helpers of JavaScript\<close>

fun starts_with :: "string \<Rightarrow> string \<Rightarrow> bool" where
  "starts_with s [] = True"
| "starts_with [] (p # ps) = False"
| "starts_with (c # cs) (p # ps) = (c = p \<and> starts_with cs ps)"

text \<open>\<open>s.includes(sub)\<close>\<close>

fun includes_str :: "string \<Rightarrow> string \<Rightarrow> bool" where
  "includes_str [] sub = (sub = [])"
| "includes_str (c # cs) sub = (starts_with (c # cs) sub \<or> includes_str cs sub)"

text \<open>\<open>s.replace(pat, rep)\<close> for a string pattern: the first occurrence only.\<close>

fun replace_first :: "string \<Rightarrow> string \<Rightarrow> string \<Rightarrow> string" where
  "replace_first pat rep [] = (if pat = [] then rep else [])"
| "replace_first pat rep (c # cs) =
     (if starts_with (c # cs) pat then rep @ drop (length pat) (c # cs)
      else c # replace_first pat rep cs)"

text \<open>\<open>s.charAt(0).toUpperCase() + s.slice(1)\<close>, on ASCII text.\<close>

definition upper_char :: "char \<Rightarrow> char" where
  "upper_char c =
     (let n = (of_char c :: nat) in if 97 \<le> n \<and> n \<le> 122 then char_of (n - 32) else c)"

definition capitalize :: "string \<Rightarrow> string" where
  "capitalize s = (case s of [] \<Rightarrow> [] | c # cs \<Rightarrow> upper_char c # cs)"

text \<open>A whole number inside a template literal: its decimal digits.\<close>

function show_nat :: "nat \<Rightarrow> string" where
  "show_nat n =
     (if n < 10 then [char_of (48 + n)] else show_nat (n div 10) @ [char_of (48 + n mod 10)])"
  by pat_completeness auto
termination
  by (relation "measure (\<lambda>n. n)") auto

declare show_nat.simps [simp del]

definition show_int :: "int \<Rightarrow> string" where
  "show_int i = (if i < 0 then CHR ''-'' # show_nat (nat (- i)) else show_nat (nat i))"

text \<open>
  \<open>parseInt(s)\<close> without a radix: leading white space, a sign, then hexadecimal digits
  after \<open>0x\<close> or \<open>0X\<close> and decimal digits otherwise, as many as there are; \<open>NaN\<close> when
  there is none.
\<close>

definition is_space :: "char \<Rightarrow> bool" where
  "is_space c = (c \<in> set [CHR 0x20, CHR 0x09, CHR 0x0A, CHR 0x0B, CHR 0x0C, CHR 0x0D])"

definition digit_of :: "nat \<Rightarrow> char \<Rightarrow> nat option" where
  "digit_of radix c =
     (let n = (of_char c :: nat);
          v = (if 48 \<le> n \<and> n \<le> 57 then Some (n - 48)
               else if 97 \<le> n \<and> n \<le> 122 then Some (n - 87)
               else if 65 \<le> n \<and> n \<le> 90 then Some (n - 55)
               else None)
      in case v of None \<Rightarrow> None | Some d \<Rightarrow> if d < radix then Some d else None)"

fun parse_digits :: "nat \<Rightarrow> nat option \<Rightarrow> string \<Rightarrow> nat option" where
  "parse_digits radix acc [] = acc"
| "parse_digits radix acc (c # cs) =
     (case digit_of radix c of
        None \<Rightarrow> acc
      | Some d \<Rightarrow> parse_digits radix (Some ((case acc of None \<Rightarrow> 0 | Some a \<Rightarrow> a) * radix + d)) cs)"

definition parseInt :: "string \<Rightarrow> jsnum" where
  "parseInt s =
     (let t = dropWhile is_space s;
          neg = starts_with t ''-'';
          u = (if starts_with t ''-'' \<or> starts_with t ''+'' then drop 1 t else t);
          hex = (starts_with u ''0x'' \<or> starts_with u ''0X'');
          r = (if hex then parse_digits 16 None (drop 2 u) else parse_digits 10 None u)
      in case r of None \<Rightarrow> NaN | Some v \<Rightarrow> Num (if neg then - int v else int v))"

text \<open>\<open>s?.split('-')[0] || dflt\<close>\<close>

definition firstPartOr :: "string option \<Rightarrow> string \<Rightarrow> string" where
  "firstPartOr s dflt =
     (case s of
        None \<Rightarrow> dflt
      | Some t \<Rightarrow> (let p = takeWhile (\<lambda>c. c \<noteq> CHR ''-'') t in if p = [] then dflt else p))"

text \<open>
  The object literal both generators build from a catalog entry; they differ in the
  default for \<open>reps\<close> only.
\<close>

definition toWorkoutExercise :: "string \<Rightarrow> Exercise \<Rightarrow> WorkoutExercise" where
  "toWorkoutExercise dfltReps ex =
     \<lparr> exercise = ex,
       we_sets = parseInt (firstPartOr (sets ex) ''3''),
       we_reps =
         (case reps ex of
            None \<Rightarrow> None
          | Some t \<Rightarrow> if t = [] then None else Some (parseInt (firstPartOr (Some t) dfltReps))),
       we_duration = duration ex \<rparr>"

section \<open>Rehab plan\<close>

definition stage_str :: "RecoveryStage \<Rightarrow> string" where
  "stage_str stage =
     (case stage of
        Acute \<Rightarrow> ''acute''
      | EarlyRehab \<Rightarrow> ''early-rehab''
      | Strengthening \<Rightarrow> ''strengthening''
      | ReturnToSport \<Rightarrow> ''return-to-sport'')"

definition currentFlexion :: "DailyLog option \<Rightarrow> int" where
  "currentFlexion latestLog =
     (case latestLog of Some l \<Rightarrow> bucketToAngle (flexionBucket l) | None \<Rightarrow> 30)"

definition currentAbduction :: "DailyLog option \<Rightarrow> int" where
  "currentAbduction latestLog =
     (case latestLog of Some l \<Rightarrow> bucketToAngle (abductionBucket l) | None \<Rightarrow> 30)"

definition currentPain :: "DailyLog option \<Rightarrow> int" where
  "currentPain latestLog = (case latestLog of Some l \<Rightarrow> pain l | None \<Rightarrow> 5)"

text \<open>The predicate of \<open>rehabExercises.filter\<close>, with its early returns in order.\<close>

definition rehabEligible ::
  "RecoveryStage \<Rightarrow> UserProfile \<Rightarrow> DailyLog option \<Rightarrow> Exercise \<Rightarrow> bool" where
  "rehabEligible stage profile latestLog ex =
     (if minFlexionAngle ex > currentFlexion latestLog then False
      else if minAbductionAngle ex > currentAbduction latestLog then False
      else if requiresOverhead ex \<and> noOverhead (restrictions profile) then False
      else if requiresOverhead ex \<and> currentFlexion latestLog < 120 then False
      else if requiresShoulderLoading ex \<and> inSling (restrictions profile) then False
      else if requiresExternalRotation ex \<and>
              externalRotationLimit (restrictions profile) = Severe then False
      else if stage = Acute \<and> difficulty ex > 2 then False
      else if stage = EarlyRehab \<and> difficulty ex > 3 then False
      else if currentPain latestLog \<ge> 6 \<and> difficulty ex > 2 then False
      else True)"

definition exerciseCount :: "RecoveryStage \<Rightarrow> nat" where
  "exerciseCount stage =
     (case stage of Acute \<Rightarrow> 3 | EarlyRehab \<Rightarrow> 4 | Strengthening \<Rightarrow> 5 | ReturnToSport \<Rightarrow> 6)"

definition targetDiff :: "RecoveryStage \<Rightarrow> int" where
  "targetDiff stage = (if stage = Acute then 1 else if stage = EarlyRehab then 2 else 3)"

text \<open>
  \<open>Array.prototype.sort\<close> is stable, and the comparator is the difference of one key:
  the result is the stable sort by that key.
\<close>

definition rehabPlan ::
  "Catalog \<Rightarrow> RecoveryStage \<Rightarrow> UserProfile \<Rightarrow> DailyLog option \<Rightarrow> RehabWorkout" where
  "rehabPlan cat stage profile latestLog =
     (let filteredExercises = filter (rehabEligible stage profile latestLog) (getRehabExercises cat);
          sorted_exs = sort_key (\<lambda>ex. \<bar>difficulty ex - targetDiff stage\<bar>) filteredExercises;
          selected = take (exerciseCount stage) sorted_exs;
          selectedExercises = map (toWorkoutExercise ''10'') selected
      in \<lparr> rw_name = capitalize (stage_str stage) @ '' Rehab Session'',
           rw_stage = stage,
           rw_exercises = selectedExercises,
           rw_notes =
             (if currentPain latestLog \<ge> 5 then Some ''Go gentle today - pain is elevated''
              else None) \<rparr>)"

section \<open>Fitness plan\<close>

text \<open>The \<open>switch\<close> on the goal type, before the deload reduction.\<close>

definition baseCardioMinutes :: "GoalType \<Rightarrow> int \<Rightarrow> int" where
  "baseCardioMinutes g week =
     (case g of
        HalfMarathon \<Rightarrow> min 180 (60 + week * 10)
      | TenK \<Rightarrow> min 120 (45 + week * 8)
      | FiveK \<Rightarrow> min 90 (30 + week * 6)
      | GeneralConditioning \<Rightarrow> 90
      | MaintainFitness \<Rightarrow> 90
      | Strength \<Rightarrow> 60
      | WeightLoss \<Rightarrow> 150)"

definition planCardioMinutes :: "GoalType \<Rightarrow> int \<Rightarrow> bool \<Rightarrow> int" where
  "planCardioMinutes g week deload =
     (let target = baseCardioMinutes g week
      in if deload then \<lfloor>real_of_int target * 0.6\<rfloor> else target)"

definition choosePrimaryCardio :: "CardioType list \<Rightarrow> CardioType" where
  "choosePrimaryCardio allowedCardio =
     (if ''run'' \<in> set allowedCardio then ''run''
      else if ''bike'' \<in> set allowedCardio then ''bike''
      else if ''elliptical'' \<in> set allowedCardio then ''elliptical''
      else ''walk'')"

definition cardioEligible :: "AllowedActivities \<Rightarrow> DailyLog option \<Rightarrow> Exercise \<Rightarrow> bool" where
  "cardioEligible allowed latestLog ex =
     (if replace_first ''-light'' [] (replace_first ''-no-arms'' [] (exid ex))
           \<notin> set (cardio allowed) then False
      else if minFlexionAngle ex > currentFlexion latestLog then False
      else True)"

definition strengthEligible ::
  "AllowedActivities \<Rightarrow> UserProfile \<Rightarrow> DailyLog option \<Rightarrow> Exercise \<Rightarrow> bool" where
  "strengthEligible allowed profile latestLog ex =
     (if targetArea ex = Shoulder then False
      else if requiresOverhead ex \<and> \<not> canDoOverhead allowed then False
      else if requiresShoulderLoading ex \<and> inSling (restrictions profile) then False
      else if minFlexionAngle ex > currentFlexion latestLog then False
      else True)"

text \<open>
  The local constants the scheduling loop reads, and the three variables it updates.
\<close>

record PlanEnv =
  workoutsPerWeek :: int
  targetCardioSessions :: int
  targetStrengthSessions :: int
  targetCardioMinutes :: int
  primaryCardio :: CardioType
  cardioExercises :: "Exercise list"
  strengthExercises :: "Exercise list"
  deloadWeek :: bool
  sessionMinutes :: int

record PlanState =
  cardioSessionsPlanned :: int
  strengthSessionsPlanned :: int
  planned :: "PlannedDay list"

definition cardioWorkout :: "PlanEnv \<Rightarrow> nat \<Rightarrow> Exercise \<Rightarrow> FitnessWorkout" where
  "cardioWorkout env d cardioEx =
     (let cardioMinutes =
            \<lfloor>real_of_int (targetCardioMinutes env) / real_of_int (targetCardioSessions env)\<rfloor>
      in \<lparr> fw_id = ''fitness-cardio-'' @ show_nat d,
           fw_name = capitalize (primaryCardio env) @ '' Session'',
           fw_type = ''cardio'',
           fw_exercises =
             [\<lparr> exercise = cardioEx, we_sets = Num 1, we_reps = None,
                we_duration = Some (show_int cardioMinutes @ '' min'') \<rparr>],
           fw_totalDuration = show_int cardioMinutes @ '' min'',
           cardioType = Some (primaryCardio env),
           intensity = (if deloadWeek env then ''easy'' else ''moderate'') \<rparr>)"

definition strengthWorkout :: "PlanEnv \<Rightarrow> nat \<Rightarrow> Exercise list \<Rightarrow> FitnessWorkout" where
  "strengthWorkout env d selectedStrength =
     \<lparr> fw_id = ''fitness-strength-'' @ show_nat d,
       fw_name = ''Legs & Core'',
       fw_type = (if d = 1 then ''legs'' else ''core''),
       fw_exercises = map (toWorkoutExercise ''12'') selectedStrength,
       fw_totalDuration = show_int (min (sessionMinutes env) 45) @ '' min'',
       cardioType = None,
       intensity = (if deloadWeek env then ''easy'' else ''moderate'') \<rparr>"

text \<open>
  One pass through the body of the \<open>for\<close> loop on day \<open>d\<close>; \<open>continue\<close> and the two
  guards that schedule nothing leave the state as it is.
\<close>

definition planDay :: "PlanEnv \<Rightarrow> nat \<Rightarrow> PlanState \<Rightarrow> PlanState" where
  "planDay env d st =
     (if d = 3 \<or> d = 6 then st
      else
        let isCardioDay =
              (d mod 2 = 0 \<or> strengthSessionsPlanned st \<ge> targetStrengthSessions env)
        in if isCardioDay \<and> cardioSessionsPlanned st < targetCardioSessions env then
             (case (case find (\<lambda>e. includes_str (exid e) (primaryCardio env)) (cardioExercises env) of
                      Some e \<Rightarrow> Some e
                    | None \<Rightarrow> (case cardioExercises env of [] \<Rightarrow> None | e # _ \<Rightarrow> Some e)) of
                None \<Rightarrow> st
              | Some cardioEx \<Rightarrow>
                  st\<lparr> planned := planned st @ [\<lparr> day = d, fitness = cardioWorkout env d cardioEx \<rparr>],
                      cardioSessionsPlanned := cardioSessionsPlanned st + 1 \<rparr>)
           else if strengthSessionsPlanned st < targetStrengthSessions env then
             (let legExercises = take 3 (filter (\<lambda>e. targetArea e = Legs) (strengthExercises env));
                  coreExercises = take 2 (filter (\<lambda>e. targetArea e = Core) (strengthExercises env));
                  selectedStrength = legExercises @ coreExercises
              in if length selectedStrength > 0 then
                   st\<lparr> planned :=
                         planned st @ [\<lparr> day = d, fitness = strengthWorkout env d selectedStrength \<rparr>],
                       strengthSessionsPlanned := strengthSessionsPlanned st + 1 \<rparr>
                 else st)
           else st)"

function planLoop :: "PlanEnv \<Rightarrow> nat \<Rightarrow> PlanState \<Rightarrow> PlanState" where
  "planLoop env d st =
     (if d < 7 \<and> cardioSessionsPlanned st + strengthSessionsPlanned st < workoutsPerWeek env
      then planLoop env (d + 1) (planDay env d st)
      else st)"
  by pat_completeness auto
termination
  by (relation "measure (\<lambda>(env, d, st). 7 - d)") auto

declare planLoop.simps [simp del]

text \<open>
  \<open>fitnessPlan\<close>. Its third argument \<open>logs\<close> is never read by the source; it is kept as
  a parameter. The locals \<open>daysToGoal\<close>, \<open>weeksToGoal\<close> and \<open>baseline\<close>, which the
  source computes and never reads, are not modelled.
\<close>

definition planEnv :: "Catalog \<Rightarrow> int \<Rightarrow> UserProfile \<Rightarrow> DailyLog option \<Rightarrow> PlanEnv" where
  "planEnv cat now profile latestLog =
     (let allowed = allowedActivities profile latestLog;
          weekNo = weeksSince now (createdAt profile) + 1;
          perWeek = min (daysPerWeek (goal profile)) 6;
          cardioSessions = \<lceil>real_of_int perWeek * 0.6\<rceil>
      in \<lparr> workoutsPerWeek = perWeek,
           targetCardioSessions = cardioSessions,
           targetStrengthSessions = perWeek - cardioSessions,
           targetCardioMinutes =
             planCardioMinutes (goalType (goal profile)) weekNo (isDeloadWeek allowed),
           primaryCardio = choosePrimaryCardio (cardio allowed),
           cardioExercises = filter (cardioEligible allowed latestLog) (getCardioExercises cat),
           strengthExercises =
             filter (strengthEligible allowed profile latestLog) (getStrengthExercises cat),
           deloadWeek = isDeloadWeek allowed,
           sessionMinutes = minutesPerDay (goal profile) \<rparr>)"

definition fitnessPlan ::
  "Catalog \<Rightarrow> int \<Rightarrow> UserProfile \<Rightarrow> DailyLog option \<Rightarrow> DailyLog list \<Rightarrow> WeeklyPlan" where
  "fitnessPlan cat now profile latestLog logs =
     (let env = planEnv cat now profile latestLog;
          final = planLoop env 0
                    \<lparr> cardioSessionsPlanned = 0, strengthSessionsPlanned = 0, planned = [] \<rparr>
      in \<lparr> weekNumber = weeksSince now (createdAt profile) + 1,
           workouts = planned final,
           totalCardioMinutes = targetCardioMinutes env,
           totalStrengthSessions = strengthSessionsPlanned final \<rparr>)"

section \<open>Progression check\<close>

definition shouldProgress :: "DailyLog list \<Rightarrow> bool" where
  "shouldProgress logs =
     (if length logs < 3 then False
      else
        let recent = slice_last 3 logs;
            avgPain = averagePain recent
        in if avgPain > 3 then False
           else
             let oldFlexion = bucketToAngle (flexionBucket (recent ! 0));
                 newFlexion = bucketToAngle (flexionBucket (recent ! (length recent - 1)))
             in newFlexion \<ge> oldFlexion)"

section \<open>Sample inputs\<close>

text \<open>
  \<open>createMockProfile\<close> and \<open>createMockLog\<close> of the engine's test suite (an injury 30 days
  before \<open>now\<close>, an account created at \<open>now\<close>), a clock value, and a small catalog in
  the shape of the exercise library. The instances below are built from them.
\<close>

definition sampleNow :: int where
  "sampleNow = 1762128000000"

definition dayMs :: int where
  "dayMs = 24 * 60 * 60 * 1000"

definition mockProfile :: "int \<Rightarrow> UserProfile" where
  "mockProfile now =
     \<lparr> injuryDate = now - 30 * dayMs,
       surgeryStatus = SurgeryNone,
       surgeryDate = None,
       restrictions =
         \<lparr> inSling = False, noRunning = False, noOverhead = True,
           maxAbductionAngle = 90, maxFlexionAngle = 90,
           externalRotationLimit = Moderate \<rparr>,
       goal =
         \<lparr> goalType = GeneralConditioning, targetDate = None,
           daysPerWeek = 4, minutesPerDay = 45 \<rparr>,
       createdAt = now \<rparr>"

definition mockLog :: DailyLog where
  "mockLog =
     \<lparr> date = 0, pain = 4, instability = 3, sleepImpact = 3,
       flexionBucket = ''90-120'', abductionBucket = ''60-90'', slingWorn = False \<rparr>"

definition mockExercise :: "string \<Rightarrow> TargetArea \<Rightarrow> int \<Rightarrow> Exercise" where
  "mockExercise i area diff =
     \<lparr> exid = i, targetArea = area, difficulty = diff, requiresOverhead = False,
       requiresShoulderLoading = False, requiresExternalRotation = False,
       minAbductionAngle = 0, minFlexionAngle = 0,
       sets = Some ''2-3'', reps = Some ''10-15'', duration = None \<rparr>"

definition mockCatalog :: Catalog where
  "mockCatalog =
     \<lparr> getRehabExercises =
         [mockExercise ''pendulum'' Shoulder 1, mockExercise ''wand-flexion'' Shoulder 2,
          mockExercise ''wall-slide'' Shoulder 3, mockExercise ''band-row'' Shoulder 4,
          mockExercise ''scap-squeeze'' Shoulder 1, mockExercise ''isometric-er'' Shoulder 2,
          mockExercise ''prone-y'' Shoulder 5],
       getCardioExercises =
         [mockExercise ''walk'' FullBody 1, mockExercise ''bike-no-arms'' Legs 1,
          mockExercise ''run-light'' FullBody 2],
       getStrengthExercises =
         [mockExercise ''squat'' Legs 2, mockExercise ''plank'' Core 2] \<rparr>"

definition emptyCatalog :: Catalog where
  "emptyCatalog =
     \<lparr> getRehabExercises = [], getCardioExercises = [], getStrengthExercises = [] \<rparr>"

text \<open>The log of the suite's return-to-sport scenario, dated \<open>d\<close>.\<close>

definition goodLog :: "int \<Rightarrow> DailyLog" where
  "goodLog d = mockLog\<lparr> date := d, pain := 1, flexionBucket := ''150+'', abductionBucket := ''150+'' \<rparr>"

text \<open>A profile injured 100 days ago, as in that scenario.\<close>

definition healedProfile :: UserProfile where
  "healedProfile = (mockProfile sampleNow)\<lparr> injuryDate := sampleNow - 100 * dayMs \<rparr>"

text \<open>
  The same profile with surgery status \<open>planned\<close> and a surgery date two weeks ahead. The
  onboarding and settings forms store the date field whatever the status is
  (\<open>surgery_date: surgeryDate || null\<close>), so such a profile can be saved.
\<close>

definition plannedSurgeryProfile :: UserProfile where
  "plannedSurgeryProfile =
     healedProfile\<lparr> surgeryStatus := Planned, surgeryDate := Some (sampleNow + 14 * dayMs) \<rparr>"

text \<open>
  A window as the pages fetch it (\<open>order('date', { ascending: false }).limit(14)\<close>):
  eight daily logs, newest first. The seven most recent report full range of motion;
  the oldest, dated 1, reports the lowest bucket.
\<close>

definition descendingLogs :: "DailyLog list" where
  "descendingLogs =
     [goodLog 8, goodLog 7, goodLog 6, goodLog 5, goodLog 4, goodLog 3, goodLog 2,
      (goodLog 1)\<lparr> flexionBucket := ''<60'', abductionBucket := ''<60'' \<rparr>]"

text \<open>The suite's profile with running restricted and a half-marathon goal.\<close>

definition noRunProfile :: UserProfile where
  "noRunProfile =
     (mockProfile sampleNow)
       \<lparr> restrictions := (restrictions (mockProfile sampleNow))\<lparr> noRunning := True \<rparr>,
         goal := (goal (mockProfile sampleNow))\<lparr> goalType := HalfMarathon \<rparr> \<rparr>"

definition sixDayProfile :: UserProfile where
  "sixDayProfile =
     (mockProfile sampleNow)\<lparr> goal := (goal (mockProfile sampleNow))\<lparr> daysPerWeek := 6 \<rparr> \<rparr>"

definition slingProfile :: UserProfile where
  "slingProfile =
     (mockProfile sampleNow)
       \<lparr> restrictions := (restrictions (mockProfile sampleNow))\<lparr> inSling := True \<rparr> \<rparr>"

section \<open>Facts about the helpers\<close>

lemma weeksSince_div: "weeksSince now d = (now - d) div 604800000"
  unfolding weeksSince_def by (simp only: floor_divide_of_int_eq) simp

lemma isDeloadWeek_eq:
  "isDeloadWeek (allowedActivities profile latestLog) =
     (case latestLog of
        None \<Rightarrow> False
      | Some l \<Rightarrow> pain l \<ge> 7 \<or> instability l \<ge> 7 \<or> sleepImpact l \<ge> 8)"
  by (simp add: allowedActivities_def Let_def)

lemma floor_06: "\<lfloor>real_of_int t * 0.6\<rfloor> = (3 * t) div 5"
proof -
  have "real_of_int t * 0.6 = real_of_int (3 * t) / real_of_int 5" by simp
  then show ?thesis by (simp only: floor_divide_of_int_eq)
qed

lemma bike_allowed: "''bike'' \<in> set (cardio (allowedActivities profile latestLog))"
  by (simp add: allowedActivities_def Let_def)

lemma run_allowed_iff:
  "''run'' \<in> set (cardio (allowedActivities profile latestLog)) \<longleftrightarrow>
     \<not> noRunning (restrictions profile) \<and> \<not> inSling (restrictions profile) \<and>
     noLogOr latestLog (\<lambda>l. pain l \<le> 5 \<and> instability l \<le> 5)"
  by (simp add: allowedActivities_def Let_def)

section \<open>The scheduling loop\<close>

text \<open>
  One pass of the loop body schedules nothing or appends one workout for its day, never
  on day 3 or 6; a cardio workout carries the primary cardio type and any other workout
  carries none.
\<close>

lemma planDay_planned:
  "planned (planDay env d st) = planned st \<or>
   (d \<noteq> 3 \<and> d \<noteq> 6 \<and>
    (\<exists>w. planned (planDay env d st) = planned st @ [w] \<and> day w = d \<and>
         cardioType (fitness w) =
           (if fw_type (fitness w) = ''cardio'' then Some (primaryCardio env) else None)))"
  by (auto simp add: planDay_def cardioWorkout_def strengthWorkout_def Let_def
      split: option.splits list.splits)

text \<open>
  Hence the loop started on day \<open>d\<close> appends workouts with strictly increasing days from
  \<open>d\<close> to 6, by induction along the loop's own recursion.
\<close>

lemma planLoop_planned:
  "\<exists>new. planned (planLoop env d st) = planned st @ new \<and>
         sorted_wrt (<) (map day new) \<and>
         (\<forall>w\<in>set new. d \<le> day w \<and> day w < 7 \<and> day w \<noteq> 3 \<and> day w \<noteq> 6 \<and>
            cardioType (fitness w) =
              (if fw_type (fitness w) = ''cardio'' then Some (primaryCardio env) else None))"
proof (induction env d st rule: planLoop.induct)
  case (1 env d st)
  show ?case
  proof (cases "d < 7 \<and> cardioSessionsPlanned st + strengthSessionsPlanned st < workoutsPerWeek env")
    case False
    then have "planLoop env d st = st" by (subst planLoop.simps) auto
    then show ?thesis by simp
  next
    case True
    then have step: "planLoop env d st = planLoop env (d + 1) (planDay env d st)"
      by (subst planLoop.simps) auto
    from "1.IH" [OF True] obtain rest where
      rest: "planned (planLoop env (d + 1) (planDay env d st)) = planned (planDay env d st) @ rest"
        "sorted_wrt (<) (map day rest)"
        "\<forall>w\<in>set rest. d + 1 \<le> day w \<and> day w < 7 \<and> day w \<noteq> 3 \<and> day w \<noteq> 6 \<and>
            cardioType (fitness w) =
              (if fw_type (fitness w) = ''cardio'' then Some (primaryCardio env) else None)"
      by blast
    from planDay_planned [of env d st] show ?thesis
    proof
      assume "planned (planDay env d st) = planned st"
      with rest step show ?thesis by (intro exI [of _ rest]) auto
    next
      assume "d \<noteq> 3 \<and> d \<noteq> 6 \<and>
        (\<exists>w. planned (planDay env d st) = planned st @ [w] \<and> day w = d \<and>
         cardioType (fitness w) =
           (if fw_type (fitness w) = ''cardio'' then Some (primaryCardio env) else None))"
      then obtain w where w: "d \<noteq> 3" "d \<noteq> 6" "planned (planDay env d st) = planned st @ [w]"
        "day w = d"
        "cardioType (fitness w) =
           (if fw_type (fitness w) = ''cardio'' then Some (primaryCardio env) else None)"
        by blast
      from True have "d < 7" by simp
      with rest step w show ?thesis by (intro exI [of _ "w # rest"]) auto
    qed
  qed
qed

lemma workouts_planned:
  "sorted_wrt (<) (map day (workouts (fitnessPlan cat now profile latestLog logs))) \<and>
   (\<forall>w\<in>set (workouts (fitnessPlan cat now profile latestLog logs)).
      day w < 7 \<and> day w \<noteq> 3 \<and> day w \<noteq> 6 \<and>
      cardioType (fitness w) =
        (if fw_type (fitness w) = ''cardio''
         then Some (choosePrimaryCardio (cardio (allowedActivities profile latestLog)))
         else None))"
proof -
  let ?env = "planEnv cat now profile latestLog"
  let ?init = "\<lparr> cardioSessionsPlanned = 0, strengthSessionsPlanned = 0, planned = [] \<rparr>"
  have prim: "primaryCardio ?env = choosePrimaryCardio (cardio (allowedActivities profile latestLog))"
    by (simp add: planEnv_def Let_def)
  have w: "workouts (fitnessPlan cat now profile latestLog logs) = planned (planLoop ?env 0 ?init)"
    by (simp add: fitnessPlan_def Let_def)
  from planLoop_planned [of ?env 0 ?init] show ?thesis
    unfolding w prim by auto
qed

lemma few_days:
  assumes "distinct (xs :: nat list)" and "set xs \<subseteq> {0, 1, 2, 4, 5}"
  shows "length xs \<le> 5"
proof -
  have "length xs = card (set xs)" using assms(1) by (simp add: distinct_card)
  also have "\<dots> \<le> card {0, 1, 2, 4, 5 :: nat}" using assms(2) by (intro card_mono) auto
  also have "\<dots> = 5" by simp
  finally show ?thesis .
qed

section \<open>The rehab selection\<close>

lemma filter_length_mono:
  "(\<And>x. x \<in> set xs \<Longrightarrow> P x \<Longrightarrow> Q x) \<Longrightarrow> length (filter P xs) \<le> length (filter Q xs)"
  by (induction xs) auto

lemma rehab_length:
  "length (rw_exercises (rehabPlan cat stage profile latestLog)) =
     min (exerciseCount stage)
       (length (filter (rehabEligible stage profile latestLog) (getRehabExercises cat)))"
  by (simp add: rehabPlan_def Let_def min.commute)

section \<open>Claims\<close>

text \<open>
  Claim C1. The weeks-recovering value of \<open>currentRecoveryStage\<close> is the weeks since the
  surgery date when the surgery status is post-op and a surgery date exists, and the
  weeks since the injury date otherwise; so for a profile that is not post-op a surgery
  date does not change the stage.

  The source computes \<open>weeksSinceSurgery ?? weeksSinceInjury\<close> from the surgery date alone
  and never reads \<open>surgeryStatus\<close>, under the comment "Use surgery date if post-op,
  otherwise injury date". Evaluated on a profile with status \<open>planned\<close>, an injury 100 days
  (14 weeks) old and a surgery date two weeks ahead: the weeks compared are -2, not
  14, and the stage is acute, where the same profile without the date is at
  return-to-sport.
\<close>

theorem surgery_date_used_when_not_post_op:
  "surgeryStatus plannedSurgeryProfile = Planned \<and>
   weeksSince sampleNow (injuryDate plannedSurgeryProfile) = 14 \<and>
   weeksRecovering sampleNow plannedSurgeryProfile = - 2 \<and>
   currentRecoveryStage sampleNow plannedSurgeryProfile [goodLog 0] = Acute \<and>
   currentRecoveryStage sampleNow (plannedSurgeryProfile\<lparr> surgeryDate := None \<rparr>) [goodLog 0]
     = ReturnToSport"
  by code_simp

text \<open>
  Claim C2. For a log window in the log store's order (date descending, up to 14
  entries), \<open>currentRecoveryStage\<close> averages pain over at most the 7 most recent logs and
  reads the latest flexion and abduction angles from the most recent log.

  The source takes \<open>logs.slice(-7)\<close> and the last element of that slice, which on a
  descending window are the 7 oldest logs and the oldest log, while its callers read
  \<open>logs[0]\<close> as the latest log. Evaluated on eight descending logs: the slice drops the
  newest log (dated 8), the log read as latest is the oldest (dated 1), and the stage is
  early-rehab, where the seven most recent logs in chronological order give
  return-to-sport.
\<close>

theorem descending_window_reads_oldest_logs:
  "sorted_wrt (>) (map date descendingLogs) \<and>
   map date (take 7 descendingLogs) = [8, 7, 6, 5, 4, 3, 2] \<and>
   map date (recentLogs descendingLogs) = [7, 6, 5, 4, 3, 2, 1] \<and>
   map_option date (last_elem (recentLogs descendingLogs)) = Some 1 \<and>
   currentRecoveryStage sampleNow healedProfile descendingLogs = EarlyRehab \<and>
   currentRecoveryStage sampleNow healedProfile (rev (take 7 descendingLogs)) = ReturnToSport"
  by code_simp

text \<open>
  Claim C3. For every profile and every present latest log, \<open>isDeloadWeek\<close> of
  \<open>allowedActivities\<close> holds if and only if pain is at least 7 or instability is at least
  7 or sleep impact is at least 8; when it holds, the deload note is the first element
  of the notes; for an absent log it does not hold.
\<close>

theorem deload_week_iff:
  "isDeloadWeek (allowedActivities profile (Some l)) =
     (pain l \<ge> 7 \<or> instability l \<ge> 7 \<or> sleepImpact l \<ge> 8)
   \<and> (isDeloadWeek (allowedActivities profile (Some l)) \<longrightarrow>
        (\<exists>rest. notes_list (allowedActivities profile (Some l)) =
           ''Deload week: reduce intensity, focus on recovery'' # rest))
   \<and> \<not> isDeloadWeek (allowedActivities profile None)"
  by (simp add: allowedActivities_def Let_def)

theorem deload_week_iff_witness:
  "isDeloadWeek (allowedActivities (mockProfile sampleNow) (Some (mockLog\<lparr> pain := 8 \<rparr>)))
   \<and> (\<exists>rest. notes_list (allowedActivities (mockProfile sampleNow) (Some (mockLog\<lparr> pain := 8 \<rparr>))) =
         ''Deload week: reduce intensity, focus on recovery'' # rest)
   \<and> \<not> isDeloadWeek (allowedActivities (mockProfile sampleNow) (Some mockLog))"
  using deload_week_iff [of "mockProfile sampleNow" "mockLog\<lparr> pain := 8 \<rparr>"]
    deload_week_iff [of "mockProfile sampleNow" mockLog]
  by (simp add: mockLog_def)

text \<open>
  Claim C4. For every profile with \<open>noRunning\<close> set, every latest log (also none) and
  every log window: \<open>run\<close> is not among the allowed cardio types, and no cardio workout of
  the fitness plan has cardio type \<open>run\<close>.
\<close>

theorem no_running_excludes_run:
  assumes "noRunning (restrictions profile)"
  shows "''run'' \<notin> set (cardio (allowedActivities profile latestLog)) \<and>
         (\<forall>w\<in>set (workouts (fitnessPlan cat now profile latestLog logs)).
            fw_type (fitness w) = ''cardio'' \<longrightarrow> cardioType (fitness w) \<noteq> Some ''run'')"
proof -
  have norun: "''run'' \<notin> set (cardio (allowedActivities profile latestLog))"
    using assms by (simp add: run_allowed_iff)
  then have "choosePrimaryCardio (cardio (allowedActivities profile latestLog)) \<noteq> ''run''"
    by (simp add: choosePrimaryCardio_def)
  with norun workouts_planned [of cat now profile latestLog logs] show ?thesis by auto
qed

theorem no_running_excludes_run_witness:
  "noRunning (restrictions noRunProfile) \<and>
   ''run'' \<notin> set (cardio (allowedActivities noRunProfile (Some mockLog))) \<and>
   (\<exists>w\<in>set (workouts (fitnessPlan mockCatalog sampleNow noRunProfile (Some mockLog) [mockLog])).
      fw_type (fitness w) = ''cardio'' \<and> cardioType (fitness w) \<noteq> Some ''run'')"
proof -
  have h: "noRunning (restrictions noRunProfile)"
    by (simp add: noRunProfile_def)
  have e: "\<exists>w\<in>set (workouts (fitnessPlan mockCatalog sampleNow noRunProfile (Some mockLog) [mockLog])).
             fw_type (fitness w) = ''cardio''"
    by code_simp
  from no_running_excludes_run [OF h, of "Some mockLog" mockCatalog sampleNow "[mockLog]"] h e
  show ?thesis by blast
qed

text \<open>
  Claim C5. \<open>fitnessPlan\<close> reports as \<open>totalCardioMinutes\<close> the goal-driven target: with
  week number \<open>weeksSince(createdAt) + 1\<close>, the minimum of 180 and 60 + 10 per week for
  half-marathon, of 120 and 45 + 8 per week for 10k, of 90 and 30 + 6 per week for 5k,
  90 for general-conditioning and maintain-fitness, 60 for strength, 150 for
  weight-loss, times 0.6 and floored in a deload week. It is the target, not the sum of
  the scheduled sessions' minutes.
\<close>

theorem total_cardio_minutes_is_target:
  "totalCardioMinutes (fitnessPlan cat now profile latestLog logs) =
     (let weekNo = weeksSince now (createdAt profile) + 1;
          target =
            (case goalType (goal profile) of
               HalfMarathon \<Rightarrow> min 180 (60 + weekNo * 10)
             | TenK \<Rightarrow> min 120 (45 + weekNo * 8)
             | FiveK \<Rightarrow> min 90 (30 + weekNo * 6)
             | GeneralConditioning \<Rightarrow> 90
             | MaintainFitness \<Rightarrow> 90
             | Strength \<Rightarrow> 60
             | WeightLoss \<Rightarrow> 150)
      in if isDeloadWeek (allowedActivities profile latestLog)
         then \<lfloor>real_of_int target * 0.6\<rfloor> else target)"
  by (simp add: fitnessPlan_def planEnv_def planCardioMinutes_def baseCardioMinutes_def Let_def)

text \<open>
  At the suite's half-marathon profile in its first week the target is 70, and 42 in a
  deload week; with an empty catalog nothing is scheduled and the total is still 70.
\<close>

theorem total_cardio_minutes_is_target_witness:
  "totalCardioMinutes (fitnessPlan mockCatalog sampleNow noRunProfile (Some mockLog) [mockLog]) = 70 \<and>
   totalCardioMinutes
     (fitnessPlan mockCatalog sampleNow noRunProfile (Some (mockLog\<lparr> pain := 8 \<rparr>)) [mockLog]) = 42 \<and>
   totalCardioMinutes (fitnessPlan emptyCatalog sampleNow noRunProfile (Some mockLog) [mockLog]) = 70 \<and>
   workouts (fitnessPlan emptyCatalog sampleNow noRunProfile (Some mockLog) [mockLog]) = []"
proof -
  have w: "weeksSince sampleNow (createdAt noRunProfile) + 1 = 1"
    by (simp add: weeksSince_div noRunProfile_def mockProfile_def)
  have g: "goalType (goal noRunProfile) = HalfMarathon"
    by (simp add: noRunProfile_def)
  have d1: "\<not> isDeloadWeek (allowedActivities noRunProfile (Some mockLog))"
    by (simp add: isDeloadWeek_eq mockLog_def)
  have d2: "isDeloadWeek (allowedActivities noRunProfile (Some (mockLog\<lparr> pain := 8 \<rparr>)))"
    by (simp add: isDeloadWeek_eq mockLog_def)
  have e: "workouts (fitnessPlan emptyCatalog sampleNow noRunProfile (Some mockLog) [mockLog]) = []"
    by code_simp
  from total_cardio_minutes_is_target [of mockCatalog sampleNow noRunProfile "Some mockLog" "[mockLog]"]
    total_cardio_minutes_is_target
      [of mockCatalog sampleNow noRunProfile "Some (mockLog\<lparr> pain := 8 \<rparr>)" "[mockLog]"]
    total_cardio_minutes_is_target [of emptyCatalog sampleNow noRunProfile "Some mockLog" "[mockLog]"]
    e
  show ?thesis
    by (simp only: w g d1 d2 Let_def floor_06 GoalType.case if_True if_False) simp
qed

text \<open>
  Claim C6. For every profile and latest log, the acute rehab plan has at most 3
  exercises, and with profile and log fixed the number of exercises does not decrease
  as the stage advances from acute to early-rehab to strengthening to return-to-sport.
  It holds for every catalog.
\<close>

theorem rehab_count_monotone:
  "length (rw_exercises (rehabPlan cat Acute profile latestLog)) \<le> 3 \<and>
   length (rw_exercises (rehabPlan cat Acute profile latestLog))
     \<le> length (rw_exercises (rehabPlan cat EarlyRehab profile latestLog)) \<and>
   length (rw_exercises (rehabPlan cat EarlyRehab profile latestLog))
     \<le> length (rw_exercises (rehabPlan cat Strengthening profile latestLog)) \<and>
   length (rw_exercises (rehabPlan cat Strengthening profile latestLog))
     \<le> length (rw_exercises (rehabPlan cat ReturnToSport profile latestLog))"
proof -
  let ?n = "\<lambda>s. length (filter (rehabEligible s profile latestLog) (getRehabExercises cat))"
  have a: "?n Acute \<le> ?n EarlyRehab"
    by (rule filter_length_mono) (auto simp add: rehabEligible_def split: if_splits)
  have b: "?n EarlyRehab \<le> ?n Strengthening"
    by (rule filter_length_mono) (auto simp add: rehabEligible_def split: if_splits)
  have c: "?n Strengthening \<le> ?n ReturnToSport"
    by (rule filter_length_mono) (auto simp add: rehabEligible_def split: if_splits)
  from a b c show ?thesis
    by (auto simp add: rehab_length exerciseCount_def min_def)
qed

theorem rehab_count_monotone_witness:
  "map (\<lambda>s. length (rw_exercises (rehabPlan mockCatalog s (mockProfile sampleNow) (Some mockLog))))
     [Acute, EarlyRehab, Strengthening, ReturnToSport] = [3, 4, 5, 6]"
proof -
  have e: "map (\<lambda>s. length (rw_exercises (rehabPlan mockCatalog s (mockProfile sampleNow) (Some mockLog))))
     [EarlyRehab, Strengthening, ReturnToSport] = [4, 5, 6]"
    by code_simp
  have a: "3 \<le> length (rw_exercises (rehabPlan mockCatalog Acute (mockProfile sampleNow) (Some mockLog)))"
    by code_simp
  from rehab_count_monotone [of mockCatalog "mockProfile sampleNow" "Some mockLog"] e a
  show ?thesis by simp
qed

text \<open>
  Claim C7. For every stage, every profile and every latest log whose pain is at least
  6, every exercise that \<open>rehabPlan\<close> selects has difficulty at most 2, also in the
  stages strengthening and return-to-sport, which have no difficulty cap of their own.
\<close>

theorem high_pain_caps_difficulty:
  assumes "pain l \<ge> 6"
  shows "\<forall>we\<in>set (rw_exercises (rehabPlan cat stage profile (Some l))).
           difficulty (exercise we) \<le> 2"
proof
  fix we assume "we \<in> set (rw_exercises (rehabPlan cat stage profile (Some l)))"
  then obtain ex where ex: "we = toWorkoutExercise ''10'' ex"
    "ex \<in> set (take (exerciseCount stage)
        (sort_key (\<lambda>ex. \<bar>difficulty ex - targetDiff stage\<bar>)
          (filter (rehabEligible stage profile (Some l)) (getRehabExercises cat))))"
    by (auto simp add: rehabPlan_def Let_def)
  from ex(2) have "ex \<in> set (filter (rehabEligible stage profile (Some l)) (getRehabExercises cat))"
    using set_take_subset by fastforce
  then have "rehabEligible stage profile (Some l) ex" by simp
  with assms have "difficulty ex \<le> 2"
    by (auto simp add: rehabEligible_def currentPain_def split: if_splits)
  with ex(1) show "difficulty (exercise we) \<le> 2" by (simp add: toWorkoutExercise_def)
qed

text \<open>
  At pain 7 the return-to-sport plan of the sample catalog has four exercises, all of
  difficulty at most 2; at pain 4 it has one of difficulty 4.
\<close>

theorem high_pain_caps_difficulty_witness:
  "pain (mockLog\<lparr> pain := 7 \<rparr>) \<ge> 6 \<and>
   length (rw_exercises
     (rehabPlan mockCatalog ReturnToSport (mockProfile sampleNow) (Some (mockLog\<lparr> pain := 7 \<rparr>)))) = 4 \<and>
   list_all (\<lambda>we. difficulty (exercise we) \<le> 2)
     (rw_exercises
       (rehabPlan mockCatalog ReturnToSport (mockProfile sampleNow) (Some (mockLog\<lparr> pain := 7 \<rparr>)))) \<and>
   (\<exists>we\<in>set (rw_exercises
       (rehabPlan mockCatalog ReturnToSport (mockProfile sampleNow) (Some mockLog))).
      difficulty (exercise we) = 4)"
proof -
  have h: "pain (mockLog\<lparr> pain := 7 \<rparr>) \<ge> 6" by simp
  have n: "length (rw_exercises
     (rehabPlan mockCatalog ReturnToSport (mockProfile sampleNow) (Some (mockLog\<lparr> pain := 7 \<rparr>)))) = 4"
    by code_simp
  have e: "\<exists>we\<in>set (rw_exercises
       (rehabPlan mockCatalog ReturnToSport (mockProfile sampleNow) (Some mockLog))).
      difficulty (exercise we) = 4"
    by code_simp
  from high_pain_caps_difficulty [OF h, of mockCatalog ReturnToSport "mockProfile sampleNow"]
  have c: "list_all (\<lambda>we. difficulty (exercise we) \<le> 2)
     (rw_exercises
       (rehabPlan mockCatalog ReturnToSport (mockProfile sampleNow) (Some (mockLog\<lparr> pain := 7 \<rparr>))))"
    by (simp only: list_all_iff)
  from h n c e show ?thesis by blast
qed

text \<open>
  Claim C8. \<open>shouldProgress\<close> is false for every list of fewer than 3 logs. Otherwise,
  on the last 3 entries in the order given, it is false when their average pain
  exceeds 3, and else it is true if and only if the angle of the last entry's flexion
  bucket is at least that of the first entry's. (The claim's two conditions are read as
  the cascade of the source: taken apart they would contradict each other on a window
  with high pain and growing flexion.) A list of at least 3 logs is \<open>older @ [a, b, c]\<close>.
\<close>

theorem should_progress_spec:
  "(length logs < 3 \<longrightarrow> \<not> shouldProgress logs) \<and>
   shouldProgress (older @ [a, b, c]) =
     (\<not> real_of_int (pain a + pain b + pain c) / 3 > 3 \<and>
      bucketToAngle (flexionBucket c) \<ge> bucketToAngle (flexionBucket a))"
  by (auto simp add: shouldProgress_def slice_last_def averagePain_def Let_def)

text \<open>The three cases of the test suite.\<close>

theorem should_progress_spec_witness:
  "length [mockLog, mockLog] < 3 \<and> \<not> shouldProgress [mockLog, mockLog] \<and>
   \<not> shouldProgress [mockLog\<lparr> pain := 5 \<rparr>, mockLog\<lparr> pain := 5 \<rparr>, mockLog\<lparr> pain := 5 \<rparr>] \<and>
   shouldProgress
     [mockLog\<lparr> pain := 2 \<rparr>, mockLog\<lparr> pain := 2 \<rparr>,
      mockLog\<lparr> pain := 2, flexionBucket := ''120-150'' \<rparr>]"
  using should_progress_spec [of "[mockLog, mockLog]" "[]" "mockLog\<lparr> pain := 5 \<rparr>"
      "mockLog\<lparr> pain := 5 \<rparr>" "mockLog\<lparr> pain := 5 \<rparr>"]
    should_progress_spec [of "[]" "[]" "mockLog\<lparr> pain := 2 \<rparr>"
      "mockLog\<lparr> pain := 2 \<rparr>" "mockLog\<lparr> pain := 2, flexionBucket := ''120-150'' \<rparr>"]
  by (simp add: mockLog_def bucketToAngle_def)

text \<open>
  Claim C9. \<open>fitnessPlan\<close> schedules no workout on day 3 or day 6 and at most one workout
  on each other day, so the plan has at most 5 workouts; with \<open>daysPerWeek = 6\<close>, where
  \<open>workoutsPerWeek\<close> is 6, it never holds the 6 sessions asked for.
\<close>

theorem at_most_five_workouts:
  "(\<forall>w\<in>set (workouts (fitnessPlan cat now profile latestLog logs)). day w \<noteq> 3 \<and> day w \<noteq> 6) \<and>
   distinct (map day (workouts (fitnessPlan cat now profile latestLog logs))) \<and>
   length (workouts (fitnessPlan cat now profile latestLog logs)) \<le> 5 \<and>
   (daysPerWeek (goal profile) = 6 \<longrightarrow>
      workoutsPerWeek (planEnv cat now profile latestLog) = 6 \<and>
      length (workouts (fitnessPlan cat now profile latestLog logs)) < 6)"
proof -
  let ?ws = "workouts (fitnessPlan cat now profile latestLog logs)"
  note wp = workouts_planned [of cat now profile latestLog logs]
  have days: "\<forall>w\<in>set ?ws. day w < 7 \<and> day w \<noteq> 3 \<and> day w \<noteq> 6" using wp by blast
  have dist: "distinct (map day ?ws)"
    using wp by (simp add: strict_sorted_iff)
  have "set (map day ?ws) \<subseteq> {0, 1, 2, 4, 5}"
  proof
    fix n assume "n \<in> set (map day ?ws)"
    then obtain w where "w \<in> set ?ws" "n = day w" by auto
    with days have "n < 7" "n \<noteq> 3" "n \<noteq> 6" by auto
    then show "n \<in> {0, 1, 2, 4, 5}" by auto
  qed
  with dist have "length (map day ?ws) \<le> 5" by (rule few_days)
  then have len: "length ?ws \<le> 5" by simp
  have "daysPerWeek (goal profile) = 6 \<Longrightarrow> workoutsPerWeek (planEnv cat now profile latestLog) = 6"
    by (simp add: planEnv_def Let_def)
  with days dist len show ?thesis by auto
qed

theorem at_most_five_workouts_witness:
  "daysPerWeek (goal sixDayProfile) = 6 \<and>
   workoutsPerWeek (planEnv mockCatalog sampleNow sixDayProfile (Some mockLog)) = 6 \<and>
   map day (workouts (fitnessPlan mockCatalog sampleNow sixDayProfile (Some mockLog) [mockLog]))
     = [0, 1, 2, 4, 5] \<and>
   length (workouts (fitnessPlan mockCatalog sampleNow sixDayProfile (Some mockLog) [mockLog])) < 6"
proof -
  have h: "daysPerWeek (goal sixDayProfile) = 6" by (simp add: sixDayProfile_def)
  have e: "map day (workouts (fitnessPlan mockCatalog sampleNow sixDayProfile (Some mockLog) [mockLog]))
     = [0, 1, 2, 4, 5]"
    by code_simp
  from at_most_five_workouts [of mockCatalog sampleNow sixDayProfile "Some mockLog" "[mockLog]"] h e
  show ?thesis by blast
qed

text \<open>
  Claim C10. As \<open>walk\<close> and \<open>bike\<close> are always among the allowed cardio types, the
  primary cardio type that \<open>fitnessPlan\<close> chooses is \<open>run\<close> or \<open>bike\<close> for every profile and
  latest log (the elliptical and walk branches are never taken), and every scheduled
  cardio workout has cardio type \<open>run\<close> or \<open>bike\<close>.
\<close>

theorem primary_cardio_run_or_bike:
  "choosePrimaryCardio (cardio (allowedActivities profile latestLog)) \<in> {''run'', ''bike''} \<and>
   (\<forall>w\<in>set (workouts (fitnessPlan cat now profile latestLog logs)).
      fw_type (fitness w) = ''cardio'' \<longrightarrow>
      cardioType (fitness w) \<in> {Some ''run'', Some ''bike''})"
proof -
  have "choosePrimaryCardio (cardio (allowedActivities profile latestLog)) \<in> {''run'', ''bike''}"
    using bike_allowed [of profile latestLog] by (simp add: choosePrimaryCardio_def)
  with workouts_planned [of cat now profile latestLog logs] show ?thesis by auto
qed

text \<open>In a sling the choice is \<open>bike\<close>; for the suite's profile and log it is \<open>run\<close>.\<close>

theorem primary_cardio_run_or_bike_witness:
  "choosePrimaryCardio (cardio (allowedActivities slingProfile (Some mockLog))) = ''bike'' \<and>
   (\<exists>w\<in>set (workouts (fitnessPlan mockCatalog sampleNow slingProfile (Some mockLog) [mockLog])).
      fw_type (fitness w) = ''cardio'' \<and> cardioType (fitness w) = Some ''bike'') \<and>
   (\<exists>w\<in>set (workouts (fitnessPlan mockCatalog sampleNow (mockProfile sampleNow) (Some mockLog) [mockLog])).
      fw_type (fitness w) = ''cardio'' \<and> cardioType (fitness w) = Some ''run'')"
proof -
  have a: "''run'' \<notin> set (cardio (allowedActivities slingProfile (Some mockLog)))"
    by (simp add: run_allowed_iff slingProfile_def)
  have b: "''run'' \<in> set (cardio (allowedActivities (mockProfile sampleNow) (Some mockLog)))"
    by (simp add: run_allowed_iff mockProfile_def mockLog_def noLogOr_def)
  have e1: "\<exists>w\<in>set (workouts (fitnessPlan mockCatalog sampleNow slingProfile (Some mockLog) [mockLog])).
      fw_type (fitness w) = ''cardio'' \<and> cardioType (fitness w) = Some ''bike''"
    by code_simp
  have e2: "\<exists>w\<in>set (workouts (fitnessPlan mockCatalog sampleNow (mockProfile sampleNow) (Some mockLog) [mockLog])).
      fw_type (fitness w) = ''cardio'' \<and> cardioType (fitness w) = Some ''run''"
    by code_simp
  have c: "choosePrimaryCardio (cardio (allowedActivities slingProfile (Some mockLog))) \<noteq> ''run''"
    using a by (simp add: choosePrimaryCardio_def)
  from primary_cardio_run_or_bike [of slingProfile "Some mockLog" mockCatalog sampleNow "[mockLog]"]
    c e1 e2
  show ?thesis by auto
qed

end
